theory Spec2Isabelle
  imports Complex_Main "HOL-Library.Word"
begin

section \<open>The online shopping cart programs\<close>

text \<open>
  The repository holds two console programs, \<^verbatim>\<open>online_shopping_cart.cpp\<close> (the menu
  program) and \<^verbatim>\<open>online_shopping_cart_adv.cpp\<close> (the one with the Inventory
  singleton). Their classes Product, CartItem, ShoppingCart and Order have the same
  data members, and the methods the two files share have the same bodies, so each is
  embedded once; where the two files differ (the texts of the exceptions, the payment
  classes, the name of the method that adds to a cart) both versions are given and the
  second carries the suffix \<open>_adv\<close>.

  \<^item> A C++ \<^verbatim>\<open>int\<close> is a 32-bit word; comparisons are the signed ones (\<open><s\<close>, \<open>\<le>s\<close>)
    and \<open>sint\<close> reads the value.
  \<^item> A C++ \<^verbatim>\<open>double\<close> is a type variable \<open>'d\<close> that has a zero, an addition, a
    multiplication and a comparison, with no law assumed about any of them (so nothing
    proved here relies on associativity or on exact arithmetic). The conversion of an
    \<^verbatim>\<open>int\<close> to a \<^verbatim>\<open>double\<close>, implicit in \<^verbatim>\<open>price * quantity\<close>, is the parameter
    \<open>cv\<close> of the functions that multiply.
  \<^item> A method that mutates its object returns the object after the call beside its
    result; a \<^verbatim>\<open>throw\<close> is the result \<open>Inl\<close> of the exception.
  \<^item> Output to the console is not modelled.
\<close>

subsection \<open>Exceptions\<close>

type_synonym c_int = "32 word"

datatype ShopException = ShopException string

subsection \<open>Product\<close>

record 'd Product =
  id' :: c_int
  name :: string
  price :: 'd
  stock :: c_int

definition getId :: "'d Product \<Rightarrow> c_int" where
  "getId p = id' p"

definition getName :: "'d Product \<Rightarrow> string" where
  "getName p = name p"

definition getPrice :: "'d Product \<Rightarrow> 'd" where
  "getPrice p = price p"

definition getStock :: "'d Product \<Rightarrow> c_int" where
  "getStock p = stock p"

text \<open>\<^verbatim>\<open>void setPrice(double p) { if (p<0) throw ShopException("Invalid price"); price=p; }\<close>\<close>

definition setPrice :: "'d::{zero,ord} \<Rightarrow> 'd Product \<Rightarrow> (ShopException + unit) \<times> 'd Product" where
  "setPrice p this =
     (if p < 0 then (Inl (ShopException ''Invalid price''), this)
      else (Inr (), this\<lparr>price := p\<rparr>))"

definition setStock :: "c_int \<Rightarrow> 'd Product \<Rightarrow> (ShopException + unit) \<times> 'd Product" where
  "setStock s this =
     (if s <s 0 then (Inl (ShopException ''Invalid stock''), this)
      else (Inr (), this\<lparr>stock := s\<rparr>))"

text \<open>The setters of the second file differ in the text of the exception only.\<close>

definition setPrice_adv :: "'d::{zero,ord} \<Rightarrow> 'd Product \<Rightarrow> (ShopException + unit) \<times> 'd Product" where
  "setPrice_adv p this =
     (if p < 0 then (Inl (ShopException (''Price can'' @ [CHR 0x27] @ ''t be negative'')), this)
      else (Inr (), this\<lparr>price := p\<rparr>))"

definition setStock_adv :: "c_int \<Rightarrow> 'd Product \<Rightarrow> (ShopException + unit) \<times> 'd Product" where
  "setStock_adv s this =
     (if s <s 0 then (Inl (ShopException (''Stock can'' @ [CHR 0x27] @ ''t be negative'')), this)
      else (Inr (), this\<lparr>stock := s\<rparr>))"

text \<open>
  \<^verbatim>\<open>bool reduceStock(int qty)\<close>: two early returns, then \<^verbatim>\<open>stock -= qty\<close>. The
  subtraction is the one of the machine; under the two guards it cannot overflow
  (lemma \<open>sint_stock_minus\<close> below).
\<close>

definition reduceStock :: "c_int \<Rightarrow> 'd Product \<Rightarrow> bool \<times> 'd Product" where
  "reduceStock qty this =
     (if qty \<le>s 0 then (False, this)
      else if stock this <s qty then (False, this)
      else (True, this\<lparr>stock := stock this - qty\<rparr>))"

text \<open>\<^verbatim>\<open>void increaseStock(int qty) { if (qty>0) stock += qty; }\<close> (second file only).\<close>

definition increaseStock :: "c_int \<Rightarrow> 'd Product \<Rightarrow> 'd Product" where
  "increaseStock qty this = (if 0 <s qty then this\<lparr>stock := stock this + qty\<rparr> else this)"

subsection \<open>CartItem\<close>

text \<open>
  \<^verbatim>\<open>Product product; int quantity;\<close> The product is a member by value: the constructor
  copies its argument, and a record holding a \<open>Product\<close> value is that copy.
\<close>

record 'd CartItem =
  product :: "'d Product"
  quantity :: c_int

definition subtotal :: "(c_int \<Rightarrow> 'd) \<Rightarrow> 'd::times CartItem \<Rightarrow> 'd" where
  "subtotal cv this = getPrice (product this) * cv (quantity this)"

subsection \<open>Payment\<close>

text \<open>
  \<^verbatim>\<open>virtual bool pay(double amount) = 0;\<close> In the menu program the two subclasses
  have no data member and \<^verbatim>\<open>pay\<close> prints and returns \<^verbatim>\<open>true\<close>.
\<close>

datatype Payment = CardPayment | PayPalPayment

fun pay :: "Payment \<Rightarrow> 'd \<Rightarrow> bool" where
  "pay CardPayment amount = True"
| "pay PayPalPayment amount = True"

text \<open>
  In the second program \<^verbatim>\<open>CreditCardPayment\<close> holds \<^verbatim>\<open>cardNumber\<close> and
  \<^verbatim>\<open>nameOnCard\<close>, \<^verbatim>\<open>PayPalPayment\<close> holds \<^verbatim>\<open>accountEmail\<close>.
\<close>

datatype Payment_adv = CreditCardPayment string string | PayPalPayment_adv string

fun pay_adv :: "Payment_adv \<Rightarrow> 'd \<Rightarrow> bool" where
  "pay_adv (CreditCardPayment cardNumber nameOnCard) amount =
     (if cardNumber = [] then False else True)"
| "pay_adv (PayPalPayment_adv accountEmail) amount =
     (if accountEmail = [] then False else True)"

subsection \<open>ShoppingCart\<close>

record 'd ShoppingCart =
  items :: "'d CartItem list"

text \<open>\<^verbatim>\<open>void addItem(Product p, int q) { items.push_back(CartItem(p,q)); }\<close> (menu program)\<close>

definition addItem :: "'d Product \<Rightarrow> c_int \<Rightarrow> 'd ShoppingCart \<Rightarrow> 'd ShoppingCart" where
  "addItem p q this =
     this\<lparr>ShoppingCart.items := ShoppingCart.items this @ [\<lparr>product = p, quantity = q\<rparr>]\<rparr>"

text \<open>\<^verbatim>\<open>void addToCart(const Product &p, int qty) { items.emplace_back(p, qty); }\<close>\<close>

definition addToCart :: "'d Product \<Rightarrow> c_int \<Rightarrow> 'd ShoppingCart \<Rightarrow> 'd ShoppingCart" where
  "addToCart p qty this =
     this\<lparr>ShoppingCart.items := ShoppingCart.items this @ [\<lparr>product = p, quantity = qty\<rparr>]\<rparr>"

text \<open>\<^verbatim>\<open>void removeFromCart(int productId, int qty) { /* simplified */ }\<close>\<close>

definition removeFromCart :: "c_int \<Rightarrow> c_int \<Rightarrow> 'd ShoppingCart \<Rightarrow> 'd ShoppingCart" where
  "removeFromCart productId qty this = this"

text \<open>\<^verbatim>\<open>double sum=0; for(auto& ci:items) sum+=ci.subtotal(); return sum;\<close>\<close>

definition total_cart :: "(c_int \<Rightarrow> 'd) \<Rightarrow> 'd::{zero,plus,times} ShoppingCart \<Rightarrow> 'd" where
  "total_cart cv this = foldl (\<lambda>sum ci. sum + subtotal cv ci) 0 (ShoppingCart.items this)"

definition getItems :: "'d ShoppingCart \<Rightarrow> 'd CartItem list" where
  "getItems this = ShoppingCart.items this"

definition clear :: "'d ShoppingCart \<Rightarrow> 'd ShoppingCart" where
  "clear this = this\<lparr>ShoppingCart.items := []\<rparr>"

definition empty_cart :: "'d ShoppingCart \<Rightarrow> bool" where
  "empty_cart this = (ShoppingCart.items this = [])"

subsection \<open>Order\<close>

text \<open>
  The static counter (\<^verbatim>\<open>orderCounter\<close>, \<^verbatim>\<open>nextOrderId\<close> in the second file) is
  passed to the constructor and returned by it:
  \<^verbatim>\<open>id=++orderCounter; amount=0; for(auto &c:its) amount+=c.subtotal();\<close>
\<close>

record 'd Order =
  orderId :: c_int
  items :: "'d CartItem list"
  amount :: 'd

definition new_Order ::
  "(c_int \<Rightarrow> 'd) \<Rightarrow> 'd::{zero,plus,times} CartItem list \<Rightarrow> c_int \<Rightarrow> 'd Order \<times> c_int" where
  "new_Order cv its orderCounter =
     (\<lparr>orderId = orderCounter + 1, Order.items = its,
       amount = foldl (\<lambda>a c. a + subtotal cv c) 0 its\<rparr>,
      orderCounter + 1)"

subsection \<open>Inventory (second program)\<close>

text \<open>
  \<^verbatim>\<open>unordered_map<int, Product> products\<close> is a finite map. The order in which the
  container hands out its entries is not fixed by the language; \<open>listAll\<close> takes it
  as its first argument, a list \<open>ks\<close> of the keys, any list that names each stored key
  once (\<open>iteration_order\<close>).
\<close>

record 'd Inventory =
  products :: "c_int \<rightharpoonup> 'd Product"

definition Inventory_instance :: "'d Inventory" where
  "Inventory_instance = \<lparr>Inventory.products = Map.empty\<rparr>"

definition addProduct :: "'d Product \<Rightarrow> 'd Inventory \<Rightarrow> 'd Inventory" where
  "addProduct p this = this\<lparr>Inventory.products := (Inventory.products this)(getId p \<mapsto> p)\<rparr>"

definition hasProduct :: "c_int \<Rightarrow> 'd Inventory \<Rightarrow> bool" where
  "hasProduct i this = (Inventory.products this i \<noteq> None)"

text \<open>
  \<^verbatim>\<open>Product getProduct(int id) const\<close> cannot change the inventory; it hands back the
  one it was given, so that a statement about the call can speak of the inventory after it.
\<close>

definition getProduct :: "c_int \<Rightarrow> 'd Inventory \<Rightarrow> (ShopException + 'd Product) \<times> 'd Inventory" where
  "getProduct i this =
     (case Inventory.products this i of
        None \<Rightarrow> (Inl (ShopException ''Product not found''), this)
      | Some p \<Rightarrow> (Inr p, this))"

definition Inventory_reduceStock :: "c_int \<Rightarrow> c_int \<Rightarrow> 'd Inventory \<Rightarrow> bool \<times> 'd Inventory" where
  "Inventory_reduceStock i qty this =
     (case Inventory.products this i of
        None \<Rightarrow> (False, this)
      | Some p \<Rightarrow>
          (let (ok, p') = reduceStock qty p
           in (ok, this\<lparr>Inventory.products := (Inventory.products this)(i \<mapsto> p')\<rparr>)))"

definition iteration_order :: "'d Inventory \<Rightarrow> c_int list \<Rightarrow> bool" where
  "iteration_order this ks = (distinct ks \<and> set ks = dom (Inventory.products this))"

text \<open>
  \<^verbatim>\<open>for (auto &kv : products) out.push_back(kv.second); sort(out.begin(), out.end(), byId);\<close>
  The comparison is \<^verbatim>\<open>a.getId() < b.getId()\<close> on \<^verbatim>\<open>int\<close>. \<^verbatim>\<open>std::sort\<close> is
  embedded as the library's insertion sort on the signed value of the id; the two can
  differ only in the order of elements with equal ids.
\<close>

definition listAll :: "c_int list \<Rightarrow> 'd Inventory \<Rightarrow> 'd Product list" where
  "listAll ks this =
     sort_key (\<lambda>p. sint (getId p)) (List.map_filter (Inventory.products this) ks)"

subsection \<open>The menu program: \<^verbatim>\<open>main\<close> of online_shopping_cart.cpp\<close>

text \<open>
  The state of the loop is the vector of products, the cart and the static counter of
  Order. A command is one pass of the loop with the numbers it reads; any choice other
  than 1 to 4 leaves the loop. A list of commands is the passes made so far:
  \<open>main_loop\<close> gives the Orders made in them and the state after them, or those at the
  pass that leaves the loop, if there is one. The loop itself never tests \<^verbatim>\<open>cin\<close>, so
  it does not end where the input ends (the last choice is then taken again, for ever);
  the end of a list stands for the moment of observation, not for the end of the run,
  and every moment of a run is \<open>main_loop\<close> of a list.
\<close>

record 'd main_state =
  products :: "'d Product list"
  cart :: "'d ShoppingCart"
  orderCounter :: c_int

datatype command = ShowProducts | AddToCart c_int c_int | ViewCart | Checkout c_int | Exit

text \<open>
  \<^verbatim>\<open>for(auto &p:products){ if(p.getId()==id && p.reduceStock(q)) cart.addItem(p,q); }\<close>
  \<^verbatim>\<open>reduceStock\<close> is called only where the id matches, and the item added holds the
  product as it is after the reduction.
\<close>

fun add_loop ::
  "c_int \<Rightarrow> c_int \<Rightarrow> 'd Product list \<Rightarrow> 'd ShoppingCart \<Rightarrow> 'd Product list \<times> 'd ShoppingCart" where
  "add_loop i q [] c = ([], c)"
| "add_loop i q (p # ps) c =
     (let (ok, p') = (if getId p = i then reduceStock q p else (False, p));
          c1 = (if ok then addItem p' q c else c);
          (ps', c') = add_loop i q ps c1
      in (p' # ps', c'))"

text \<open>
  The checkout branch, for a payment object given by its \<^verbatim>\<open>pay\<close> method (the call
  goes through a \<^verbatim>\<open>Payment*\<close>). The result is the Order constructed, if any.
\<close>

definition checkout_with ::
  "(c_int \<Rightarrow> 'd) \<Rightarrow> ('d \<Rightarrow> bool) \<Rightarrow> 'd::{zero,plus,times} main_state
     \<Rightarrow> 'd Order option \<times> 'd main_state" where
  "checkout_with cv payment st =
     (if empty_cart (cart st) then (None, st)
      else if payment (total_cart cv (cart st)) then
        (let (ord, n) = new_Order cv (getItems (cart st)) (orderCounter st)
         in (Some ord, st\<lparr>cart := clear (cart st), orderCounter := n\<rparr>))
      else (None, st))"

text \<open>\<^verbatim>\<open>Payment* pay = (pm==1) ? new CardPayment() : new PayPalPayment();\<close>\<close>

definition checkout ::
  "(c_int \<Rightarrow> 'd) \<Rightarrow> c_int \<Rightarrow> 'd::{zero,plus,times} main_state \<Rightarrow> 'd Order option \<times> 'd main_state" where
  "checkout cv pm st = checkout_with cv (pay (if pm = 1 then CardPayment else PayPalPayment)) st"

fun loop_body ::
  "(c_int \<Rightarrow> 'd) \<Rightarrow> command \<Rightarrow> 'd::{zero,plus,times} main_state
     \<Rightarrow> 'd Order option \<times> 'd main_state" where
  "loop_body cv ShowProducts st = (None, st)"
| "loop_body cv (AddToCart i q) st =
     (let (ps, c) = add_loop i q (main_state.products st) (cart st)
      in (None, st\<lparr>main_state.products := ps, cart := c\<rparr>))"
| "loop_body cv ViewCart st = (None, st)"
| "loop_body cv (Checkout pm) st = checkout cv pm st"
| "loop_body cv Exit st = (None, st)"

fun main_loop ::
  "(c_int \<Rightarrow> 'd) \<Rightarrow> command list \<Rightarrow> 'd::{zero,plus,times} main_state
     \<Rightarrow> 'd Order list \<times> 'd main_state" where
  "main_loop cv [] st = ([], st)"
| "main_loop cv (c # cs) st =
     (if c = Exit then ([], st)
      else (let (out, st1) = loop_body cv c st;
                (os, st2) = main_loop cv cs st1
            in ((case out of None \<Rightarrow> [] | Some ord \<Rightarrow> [ord]) @ os, st2)))"

text \<open>
  The products of \<^verbatim>\<open>main\<close>. \<open>lit\<close> gives the \<^verbatim>\<open>double\<close> that a decimal literal
  of the source denotes.
\<close>

definition initial_state :: "(real \<Rightarrow> 'd) \<Rightarrow> 'd main_state" where
  "initial_state lit =
     \<lparr>main_state.products =
        [\<lparr>id' = 1, name = ''Book'', price = lit (21 / 2), stock = 10\<rparr>,
         \<lparr>id' = 2, name = ''Pen'', price = lit (5 / 2), stock = 20\<rparr>,
         \<lparr>id' = 3, name = ''Laptop'', price = lit 800, stock = 5\<rparr>],
      cart = \<lparr>ShoppingCart.items = []\<rparr>,
      orderCounter = 0\<rparr>"

definition main ::
  "(c_int \<Rightarrow> 'd) \<Rightarrow> (real \<Rightarrow> 'd) \<Rightarrow> command list
     \<Rightarrow> 'd::{zero,plus,times} Order list \<times> 'd main_state" where
  "main cv lit cmds = main_loop cv cmds (initial_state lit)"

subsection \<open>\<^verbatim>\<open>main\<close> of online_shopping_cart_adv.cpp\<close>

text \<open>
  A straight line: two products into the inventory, product 1 with quantity 2 into the cart, a
  credit card payment, and an Order if it succeeds. The result is the exception that
  ends the program, or the Order made (if any) with the inventory, the cart and the
  static counter at the end.
\<close>

definition main_adv ::
  "(c_int \<Rightarrow> 'd) \<Rightarrow> (real \<Rightarrow> 'd)
     \<Rightarrow> ShopException + ('d::{zero,plus,times} Order option \<times> 'd Inventory \<times> 'd ShoppingCart \<times> c_int)" where
  "main_adv cv lit =
     (let inventory = addProduct \<lparr>id' = 1, name = ''Mouse'', price = lit 15, stock = 10\<rparr> Inventory_instance;
          inventory = addProduct \<lparr>id' = 2, name = ''Keyboard'', price = lit 25, stock = 5\<rparr> inventory;
          c = \<lparr>ShoppingCart.items = []\<rparr>;
          (r, inventory) = getProduct 1 inventory
      in case r of
           Inl e \<Rightarrow> Inl e
         | Inr p \<Rightarrow>
             (let c = addToCart p 2 c;
                  payment = CreditCardPayment ''1234'' ''Alice''
              in if pay_adv payment (total_cart cv c)
                 then (let (ord, n) = new_Order cv (getItems c) 0 in Inr (Some ord, inventory, c, n))
                 else Inr (None, inventory, c, 0)))"

subsection \<open>Calls made after an item was added (second program)\<close>

text \<open>
  Client code of the classes holds a Product object, the Inventory and a cart, as
  \<^verbatim>\<open>main\<close> of the second program does. \<open>add_original q\<close> is the call
  \<^verbatim>\<open>cart.addToCart(p, q)\<close> on the Product object \<^verbatim>\<open>p\<close>, which is passed by reference
  and copied into the item; \<open>add_from_inventory i q\<close> is
  \<^verbatim>\<open>cart.addToCart(inv.getProduct(i), q)\<close>, as \<^verbatim>\<open>main\<close> writes it. A \<open>change\<close> is a
  later call of a method of Product on that object or of a method of Inventory;
  \<open>do_changes\<close> makes a list of such calls one after the other and ends at the first
  exception, the objects being then as they are at the \<^verbatim>\<open>throw\<close>.
\<close>

record 'd objects =
  the_product :: "'d Product"
  the_inventory :: "'d Inventory"
  the_cart :: "'d ShoppingCart"

definition add_original :: "c_int \<Rightarrow> 'd objects \<Rightarrow> 'd objects" where
  "add_original q w = w\<lparr>the_cart := addToCart (the_product w) q (the_cart w)\<rparr>"

definition add_from_inventory :: "c_int \<Rightarrow> c_int \<Rightarrow> 'd objects \<Rightarrow> (ShopException + unit) \<times> 'd objects" where
  "add_from_inventory i q w =
     (case getProduct i (the_inventory w) of
        (Inl e, iv) \<Rightarrow> (Inl e, w\<lparr>the_inventory := iv\<rparr>)
      | (Inr p, iv) \<Rightarrow> (Inr (), w\<lparr>the_inventory := iv, the_cart := addToCart p q (the_cart w)\<rparr>))"

datatype 'd change =
  Do_setPrice 'd
  | Do_setStock c_int
  | Do_reduceStock c_int
  | Do_increaseStock c_int
  | Do_addProduct "'d Product"
  | Do_Inventory_reduceStock c_int c_int

fun do_change :: "'d::{zero,ord} change \<Rightarrow> 'd objects \<Rightarrow> (ShopException + unit) \<times> 'd objects" where
  "do_change (Do_setPrice x) w =
     (let (r, p) = setPrice_adv x (the_product w) in (r, w\<lparr>the_product := p\<rparr>))"
| "do_change (Do_setStock s) w =
     (let (r, p) = setStock_adv s (the_product w) in (r, w\<lparr>the_product := p\<rparr>))"
| "do_change (Do_reduceStock k) w =
     (let (ok, p) = reduceStock k (the_product w) in (Inr (), w\<lparr>the_product := p\<rparr>))"
| "do_change (Do_increaseStock k) w =
     (Inr (), w\<lparr>the_product := increaseStock k (the_product w)\<rparr>)"
| "do_change (Do_addProduct p) w =
     (Inr (), w\<lparr>the_inventory := addProduct p (the_inventory w)\<rparr>)"
| "do_change (Do_Inventory_reduceStock i k) w =
     (let (ok, iv) = Inventory_reduceStock i k (the_inventory w) in (Inr (), w\<lparr>the_inventory := iv\<rparr>))"

fun do_changes :: "'d::{zero,ord} change list \<Rightarrow> 'd objects \<Rightarrow> (ShopException + unit) \<times> 'd objects" where
  "do_changes [] w = (Inr (), w)"
| "do_changes (x # xs) w =
     (case do_change x w of
        (Inl e, w') \<Rightarrow> (Inl e, w')
      | (Inr u, w') \<Rightarrow> do_changes xs w')"

subsection \<open>Notions used in the statements and proofs\<close>

text \<open>
  \<open>stock_left\<close> is the number of units the products of the menu program can still
  give out, \<open>cart_mark\<close> is 1 for a cart with an item, and \<open>in_budget b\<close> says that
  the orders made so far, the order the cart in hand can still become and the units left
  together stay within \<open>b\<close>. \<open>quantities_positive\<close> is the invariant of the data
  model on a cart. A \<open>cart_call\<close> is a call of one of the mutating methods of
  ShoppingCart. \<open>key_is_id\<close> says that the inventory keeps each product under its
  own id.
\<close>

definition stock_left :: "'d Product list \<Rightarrow> int" where
  "stock_left ps = sum_list (map (\<lambda>p. max 0 (sint (stock p))) ps)"

definition cart_mark :: "'d ShoppingCart \<Rightarrow> int" where
  "cart_mark c = (if ShoppingCart.items c = [] then 0 else 1)"

definition in_budget :: "int \<Rightarrow> 'd main_state \<Rightarrow> bool" where
  "in_budget b st =
     (0 \<le> sint (orderCounter st)
      \<and> sint (orderCounter st) + cart_mark (cart st) + stock_left (main_state.products st) \<le> b)"

definition quantities_positive :: "'d ShoppingCart \<Rightarrow> bool" where
  "quantities_positive c = list_all (\<lambda>ci. 0 <s quantity ci) (ShoppingCart.items c)"

datatype 'd cart_call =
  Call_addItem "'d Product" c_int
  | Call_addToCart "'d Product" c_int
  | Call_removeFromCart c_int c_int
  | Call_clear

fun call :: "'d cart_call \<Rightarrow> 'd ShoppingCart \<Rightarrow> 'd ShoppingCart" where
  "call (Call_addItem p q) c = addItem p q c"
| "call (Call_addToCart p q) c = addToCart p q c"
| "call (Call_removeFromCart i q) c = removeFromCart i q c"
| "call Call_clear c = clear c"

fun adds_positive :: "'d cart_call \<Rightarrow> bool" where
  "adds_positive (Call_addItem p q) = (0 <s q)"
| "adds_positive (Call_addToCart p q) = (0 <s q)"
| "adds_positive (Call_removeFromCart i q) = True"
| "adds_positive Call_clear = True"

definition key_is_id :: "'d Inventory \<Rightarrow> bool" where
  "key_is_id this = (\<forall>k p. Inventory.products this k = Some p \<longrightarrow> getId p = k)"

section \<open>Properties\<close>

subsection \<open>Machine arithmetic\<close>

lemma sint_stock_minus:
  fixes s q :: c_int
  assumes "0 <s q" and "q \<le>s s"
  shows "sint (s - q) = sint s - sint q"
proof -
  have q: "0 < sint q" using assms(1) by (simp add: word_sless_alt)
  have le: "sint q \<le> sint s" using assms(2) by (simp add: word_sle_eq)
  have hi: "sint s < 2 ^ 31" using sint_lt [of s] by simp
  have "sint (s - q) = signed_take_bit 31 (sint s - sint q)"
    by (simp add: sint_word_ariths)
  also have "\<dots> = sint s - sint q"
    using q le hi by (intro signed_take_bit_int_eq_self) auto
  finally show ?thesis .
qed

lemma sint_counter_Suc:
  fixes n :: c_int
  assumes "0 \<le> sint n" and "sint n + 1 \<le> 2 ^ 31 - 1"
  shows "sint (n + 1) = sint n + 1"
proof -
  have "sint (n + 1) = signed_take_bit 31 (sint n + 1)"
    by (simp add: sint_word_ariths)
  also have "\<dots> = sint n + 1"
    using assms by (intro signed_take_bit_int_eq_self) auto
  finally show ?thesis .
qed

subsection \<open>Product\<close>

text \<open>
  C1. For every Product and every \<^verbatim>\<open>int\<close> qty: if \<open>0 < qty \<le> stock\<close> then
  \<open>reduceStock qty\<close> returns \<open>true\<close> and the stock afterwards is the stock before
  minus qty, as numbers, nothing else of the product changing; otherwise it returns
  \<open>false\<close> and the product is as before. The result type has no exception in it:
  the body has no \<^verbatim>\<open>throw\<close>.
\<close>

theorem reduceStock_spec:
  "(0 <s qty \<and> qty \<le>s stock p \<longrightarrow>
      fst (reduceStock qty p) = True
      \<and> snd (reduceStock qty p) = p\<lparr>stock := stock p - qty\<rparr>
      \<and> sint (getStock (snd (reduceStock qty p))) = sint (getStock p) - sint qty)
   \<and> (\<not> (0 <s qty \<and> qty \<le>s stock p) \<longrightarrow> reduceStock qty p = (False, p))"
proof (intro conjI impI)
  assume h: "0 <s qty \<and> qty \<le>s stock p"
  then have g: "\<not> qty \<le>s 0" "\<not> stock p <s qty"
    by (auto simp: word_sless_alt word_sle_eq)
  from g show "fst (reduceStock qty p) = True"
    by (simp add: reduceStock_def)
  from g show "snd (reduceStock qty p) = p\<lparr>stock := stock p - qty\<rparr>"
    by (simp add: reduceStock_def)
  from g h show "sint (getStock (snd (reduceStock qty p))) = sint (getStock p) - sint qty"
    by (simp add: reduceStock_def getStock_def sint_stock_minus)
next
  assume "\<not> (0 <s qty \<and> qty \<le>s stock p)"
  then show "reduceStock qty p = (False, p)"
    by (auto simp: reduceStock_def word_sless_alt word_sle_eq)
qed

theorem reduceStock_spec_witness:
  "reduceStock 3 \<lparr>id' = 1, name = ''Book'', price = (21/2 :: real), stock = 10\<rparr>
     = (True, \<lparr>id' = 1, name = ''Book'', price = 21/2, stock = 7\<rparr>)
   \<and> reduceStock 11 \<lparr>id' = 1, name = ''Book'', price = (21/2 :: real), stock = 10\<rparr>
     = (False, \<lparr>id' = 1, name = ''Book'', price = 21/2, stock = 10\<rparr>)
   \<and> reduceStock (-1) \<lparr>id' = 1, name = ''Book'', price = (21/2 :: real), stock = 10\<rparr>
     = (False, \<lparr>id' = 1, name = ''Book'', price = 21/2, stock = 10\<rparr>)"
  using reduceStock_spec [of 3 "\<lparr>id' = 1, name = ''Book'', price = (21/2 :: real), stock = 10\<rparr>"]
    reduceStock_spec [of 11 "\<lparr>id' = 1, name = ''Book'', price = (21/2 :: real), stock = 10\<rparr>"]
    reduceStock_spec [of "-1" "\<lparr>id' = 1, name = ''Book'', price = (21/2 :: real), stock = 10\<rparr>"]
  by (simp add: prod_eq_iff word_sless_alt word_sle_eq)

text \<open>
  C7. For every Product: \<open>setPrice\<close> with an argument below zero and \<open>setStock\<close>
  with an argument below zero throw a ShopException (the validation error of both files;
  the two files differ in its text) and leave the product as it was; with any other
  argument they store the argument in the field, change nothing else and throw nothing.
  For the \<^verbatim>\<open>double\<close> argument "any other" is the negation of the test \<^verbatim>\<open>p<0\<close> that
  the code makes, which every non-negative number passes.
\<close>

theorem setters_spec:
  fixes x :: "'d::{zero,ord}" and p :: "'d Product"
  shows
  "(x < 0 \<longrightarrow> setPrice x p = (Inl (ShopException ''Invalid price''), p)
            \<and> (\<exists>e. setPrice_adv x p = (Inl e, p)))
   \<and> (\<not> x < 0 \<longrightarrow> setPrice x p = (Inr (), p\<lparr>price := x\<rparr>)
            \<and> setPrice_adv x p = (Inr (), p\<lparr>price := x\<rparr>))
   \<and> (s <s 0 \<longrightarrow> setStock s p = (Inl (ShopException ''Invalid stock''), p)
            \<and> (\<exists>e. setStock_adv s p = (Inl e, p)))
   \<and> (0 \<le>s s \<longrightarrow> setStock s p = (Inr (), p\<lparr>stock := s\<rparr>)
            \<and> setStock_adv s p = (Inr (), p\<lparr>stock := s\<rparr>))"
  by (auto simp: setPrice_def setPrice_adv_def setStock_def setStock_adv_def
        word_sless_alt word_sle_eq)

theorem setters_spec_witness:
  "setPrice (-1 :: real) \<lparr>id' = 1, name = ''Book'', price = 21/2, stock = 10\<rparr>
     = (Inl (ShopException ''Invalid price''), \<lparr>id' = 1, name = ''Book'', price = 21/2, stock = 10\<rparr>)
   \<and> setPrice (12 :: real) \<lparr>id' = 1, name = ''Book'', price = 21/2, stock = 10\<rparr>
     = (Inr (), \<lparr>id' = 1, name = ''Book'', price = 12, stock = 10\<rparr>)
   \<and> setStock (-1) \<lparr>id' = 1, name = ''Book'', price = (21/2 :: real), stock = 10\<rparr>
     = (Inl (ShopException ''Invalid stock''), \<lparr>id' = 1, name = ''Book'', price = 21/2, stock = 10\<rparr>)
   \<and> setStock_adv 0 \<lparr>id' = 1, name = ''Book'', price = (21/2 :: real), stock = 10\<rparr>
     = (Inr (), \<lparr>id' = 1, name = ''Book'', price = 21/2, stock = 0\<rparr>)"
  using setters_spec [of "-1 :: real" "\<lparr>id' = 1, name = ''Book'', price = 21/2, stock = 10\<rparr>" "-1"]
    setters_spec [of "12 :: real" "\<lparr>id' = 1, name = ''Book'', price = 21/2, stock = 10\<rparr>" 0]
  by (simp add: word_sless_alt word_sle_eq)

subsection \<open>Payment\<close>

text \<open>
  C5, as amended. In the second program \<open>pay\<close> of a CreditCardPayment returns
  \<open>false\<close> exactly when the card number is empty and \<open>pay\<close> of a PayPalPayment
  exactly when the account email is empty, for every amount. In the menu program the
  two payment classes hold no account identifier and \<open>pay\<close> returns \<open>true\<close> for
  every amount.
\<close>

theorem pay_spec:
  "pay_adv (CreditCardPayment cardNumber nameOnCard) amt = (cardNumber \<noteq> [])
   \<and> pay_adv (PayPalPayment_adv accountEmail) amt = (accountEmail \<noteq> [])
   \<and> pay v amt = True"
  by (cases v) simp_all

theorem pay_spec_witness:
  "pay_adv (CreditCardPayment [] ''Alice'') (30::real) = False
   \<and> pay_adv (CreditCardPayment ''1234'' ''Alice'') (30::real) = True
   \<and> pay_adv (PayPalPayment_adv []) (30::real) = False
   \<and> pay_adv (PayPalPayment_adv ''alice@mail.com'') (30::real) = True
   \<and> pay PayPalPayment (30::real) = True"
  using pay_spec [of "[]" "''Alice''" "30::real" "[]" PayPalPayment]
    pay_spec [of "''1234''" "''Alice''" "30::real" "''alice@mail.com''" PayPalPayment]
  by simp

text \<open>
  As stated for every Payment variant, C5 fails on the menu program: its CardPayment and
  PayPalPayment are made without any account identifier, and \<open>pay\<close> does not fail.
\<close>

theorem pay_counterexample:
  "pay CardPayment (0::real) \<noteq> False \<and> pay PayPalPayment (0::real) \<noteq> False"
  by simp

subsection \<open>ShoppingCart\<close>

lemma foldl_subtotal:
  "foldl (\<lambda>sum ci. sum + subtotal cv ci) a xs
     = foldl (+) a (map (\<lambda>ci. getPrice (product ci) * cv (quantity ci)) xs)"
  by (induction xs arbitrary: a) (simp_all add: subtotal_def)

lemma add_loop_appends:
  "\<exists>new. ShoppingCart.items (snd (add_loop i q ps c)) = ShoppingCart.items c @ new"
proof (induction ps arbitrary: c)
  case Nil
  show ?case by simp
next
  case (Cons p ps)
  obtain ok p1 where r: "(if getId p = i then reduceStock q p else (False, p)) = (ok, p1)"
    by (cases "if getId p = i then reduceStock q p else (False, p)") auto
  let ?c1 = "if ok then addItem p1 q c else c"
  from Cons.IH [of ?c1] obtain new
    where n: "ShoppingCart.items (snd (add_loop i q ps ?c1)) = ShoppingCart.items ?c1 @ new"
    by blast
  have "\<exists>pre. ShoppingCart.items ?c1 = ShoppingCart.items c @ pre"
    by (simp add: addItem_def)
  then obtain pre where "ShoppingCart.items ?c1 = ShoppingCart.items c @ pre" ..
  with n have "ShoppingCart.items (snd (add_loop i q ps ?c1)) = ShoppingCart.items c @ (pre @ new)"
    by simp
  moreover have "snd (add_loop i q (p # ps) c) = snd (add_loop i q ps ?c1)"
    using r by (simp add: split_beta Let_def del: add_loop.simps(1))
  ultimately show ?case by metis
qed

lemma change_cart: "the_cart (snd (do_change x w)) = the_cart w"
  by (cases x) (simp_all add: split_beta)

lemma changes_cart: "the_cart (snd (do_changes xs w)) = the_cart w"
proof (induction xs arbitrary: w)
  case Nil
  show ?case by simp
next
  case (Cons x xs)
  obtain r w1 where c: "do_change x w = (r, w1)" by (cases "do_change x w") auto
  from change_cart [of x w] c have w1: "the_cart w1 = the_cart w" by simp
  show ?case
  proof (cases r)
    case (Inl e)
    with c w1 show ?thesis by simp
  next
    case (Inr u)
    with c w1 Cons.IH [of w1] show ?thesis by simp
  qed
qed

text \<open>
  C4. The total of a cart is the sum, taken from 0 in the order of the items with the
  addition of \<^verbatim>\<open>double\<close>, of price times quantity over its items, the price being
  the one of the Product value held in the item. \<open>addToCart p q\<close> appends an item
  holding \<open>p\<close> as it is at the call, and raises the total by the price of that \<open>p\<close>
  times \<open>q\<close>. After an item was added, from a Product object or from the Inventory,
  any later calls of \<open>setPrice\<close>, \<open>setStock\<close>, \<open>reduceStock\<close> and
  \<open>increaseStock\<close> on that object and of \<open>addProduct\<close> and \<open>reduceStock\<close> on
  the Inventory leave the items of the cart, the subtotal of the item added and the
  total as they were at the add, also when one of the calls throws; and such calls do
  take effect: after \<open>setPrice x\<close> the object has the price \<open>x\<close>, after
  \<open>addProduct\<close> the Inventory gives out the new product, while the total still counts
  the price copied at the add. In the menu program, where adding to the cart reduces the
  stock of the product in the vector, the pass of the loop that does so leaves the items
  already in the cart as they were and only appends.
\<close>

theorem total_cart_spec:
  "total_cart cv c
     = foldl (+) 0 (map (\<lambda>ci. getPrice (product ci) * cv (quantity ci)) (getItems c))
   \<and> getItems (addToCart p q c) = getItems c @ [\<lparr>product = p, quantity = q\<rparr>]
   \<and> total_cart cv (addToCart p q c) = total_cart cv c + getPrice p * cv q
   \<and> (\<exists>new. getItems (cart (snd (loop_body cv (AddToCart i k) st))) = getItems (cart st) @ new)
   \<and> getItems (the_cart (snd (do_changes chs (add_original q w))))
        = getItems (the_cart w) @ [\<lparr>product = the_product w, quantity = q\<rparr>]
   \<and> subtotal cv (last (getItems (the_cart (snd (do_changes chs (add_original q w))))))
        = getPrice (the_product w) * cv q
   \<and> total_cart cv (the_cart (snd (do_changes chs (add_original q w))))
        = total_cart cv (the_cart w) + getPrice (the_product w) * cv q
   \<and> (Inventory.products (the_inventory w) i = Some p \<longrightarrow>
        getItems (the_cart (snd (do_changes chs (snd (add_from_inventory i q w)))))
          = getItems (the_cart w) @ [\<lparr>product = p, quantity = q\<rparr>]
        \<and> subtotal cv (last (getItems (the_cart (snd (do_changes chs (snd (add_from_inventory i q w)))))))
          = getPrice p * cv q
        \<and> total_cart cv (the_cart (snd (do_changes chs (snd (add_from_inventory i q w)))))
          = total_cart cv (the_cart w) + getPrice p * cv q)
   \<and> (\<not> x < 0 \<longrightarrow>
        getPrice (the_product (snd (do_changes [Do_setPrice x] (add_original q w)))) = x
        \<and> total_cart cv (the_cart (snd (do_changes [Do_setPrice x] (add_original q w))))
            = total_cart cv (the_cart w) + getPrice (the_product w) * cv q)
   \<and> (Inventory.products (the_inventory w) i = Some p \<longrightarrow>
        fst (getProduct i (the_inventory
               (snd (do_changes [Do_addProduct (p\<lparr>price := x, stock := s\<rparr>)]
                      (snd (add_from_inventory i q w))))))
          = (if getId p = i then Inr (p\<lparr>price := x, stock := s\<rparr>) else Inr p))"
proof (intro conjI impI)
  show "total_cart cv c
     = foldl (+) 0 (map (\<lambda>ci. getPrice (product ci) * cv (quantity ci)) (getItems c))"
    by (simp add: total_cart_def getItems_def foldl_subtotal)
  show "getItems (addToCart p q c) = getItems c @ [\<lparr>product = p, quantity = q\<rparr>]"
    by (simp add: getItems_def addToCart_def)
  show "total_cart cv (addToCart p q c) = total_cart cv c + getPrice p * cv q"
    by (simp add: total_cart_def addToCart_def subtotal_def)
  from add_loop_appends [of i k "main_state.products st" "cart st"]
  show "\<exists>new. getItems (cart (snd (loop_body cv (AddToCart i k) st))) = getItems (cart st) @ new"
    by (simp add: getItems_def split_beta)
  have a: "the_cart (snd (do_changes chs (add_original q w)))
             = addToCart (the_product w) q (the_cart w)"
    by (simp add: changes_cart add_original_def)
  show "getItems (the_cart (snd (do_changes chs (add_original q w))))
        = getItems (the_cart w) @ [\<lparr>product = the_product w, quantity = q\<rparr>]"
    by (simp add: a getItems_def addToCart_def)
  show "subtotal cv (last (getItems (the_cart (snd (do_changes chs (add_original q w))))))
        = getPrice (the_product w) * cv q"
    by (simp add: a getItems_def addToCart_def subtotal_def)
  show "total_cart cv (the_cart (snd (do_changes chs (add_original q w))))
        = total_cart cv (the_cart w) + getPrice (the_product w) * cv q"
    by (simp add: a total_cart_def addToCart_def subtotal_def)
next
  assume s: "Inventory.products (the_inventory w) i = Some p"
  have b: "the_cart (snd (do_changes chs (snd (add_from_inventory i q w))))
             = addToCart p q (the_cart w)"
    using s by (simp add: changes_cart add_from_inventory_def getProduct_def)
  show "getItems (the_cart (snd (do_changes chs (snd (add_from_inventory i q w)))))
          = getItems (the_cart w) @ [\<lparr>product = p, quantity = q\<rparr>]"
    by (simp add: b getItems_def addToCart_def)
  show "subtotal cv (last (getItems (the_cart (snd (do_changes chs (snd (add_from_inventory i q w)))))))
          = getPrice p * cv q"
    by (simp add: b getItems_def addToCart_def subtotal_def)
  show "total_cart cv (the_cart (snd (do_changes chs (snd (add_from_inventory i q w)))))
          = total_cart cv (the_cart w) + getPrice p * cv q"
    by (simp add: b total_cart_def addToCart_def subtotal_def)
next
  assume x: "\<not> x < 0"
  then show "getPrice (the_product (snd (do_changes [Do_setPrice x] (add_original q w)))) = x"
    by (simp add: setPrice_adv_def add_original_def getPrice_def)
  show "total_cart cv (the_cart (snd (do_changes [Do_setPrice x] (add_original q w))))
            = total_cart cv (the_cart w) + getPrice (the_product w) * cv q"
    by (simp only: changes_cart) (simp add: add_original_def total_cart_def addToCart_def subtotal_def)
next
  assume s: "Inventory.products (the_inventory w) i = Some p"
  then show "fst (getProduct i (the_inventory
               (snd (do_changes [Do_addProduct (p\<lparr>price := x, stock := s\<rparr>)]
                      (snd (add_from_inventory i q w))))))
          = (if getId p = i then Inr (p\<lparr>price := x, stock := s\<rparr>) else Inr p)"
    by (simp add: add_from_inventory_def getProduct_def addProduct_def getId_def)
qed

theorem total_cart_spec_witness:
  "total_cart (\<lambda>q. real_of_int (sint q))
     (the_cart (snd (do_changes
        [Do_Inventory_reduceStock 1 4, Do_setPrice 99, Do_setStock 0,
         Do_addProduct \<lparr>id' = 1, name = ''Mouse'', price = 99, stock = 0\<rparr>]
        (snd (add_from_inventory 1 2
           \<lparr>the_product = \<lparr>id' = 1, name = ''Mouse'', price = 15, stock = 10\<rparr>,
            the_inventory =
              addProduct \<lparr>id' = 1, name = ''Mouse'', price = 15, stock = 10\<rparr> Inventory_instance,
            the_cart = \<lparr>ShoppingCart.items = []\<rparr>\<rparr>))))) = 30
   \<and> fst (getProduct 1
     (the_inventory (snd (do_changes
        [Do_Inventory_reduceStock 1 4, Do_setPrice 99, Do_setStock 0,
         Do_addProduct \<lparr>id' = 1, name = ''Mouse'', price = 99, stock = 0\<rparr>]
        (snd (add_from_inventory 1 2
           \<lparr>the_product = \<lparr>id' = 1, name = ''Mouse'', price = (15::real), stock = 10\<rparr>,
            the_inventory =
              addProduct \<lparr>id' = 1, name = ''Mouse'', price = 15, stock = 10\<rparr> Inventory_instance,
            the_cart = \<lparr>ShoppingCart.items = []\<rparr>\<rparr>))))))
     = Inr \<lparr>id' = 1, name = ''Mouse'', price = 99, stock = 0\<rparr>
   \<and> the_product (snd (do_changes
        [Do_Inventory_reduceStock 1 4, Do_setPrice 99, Do_setStock 0,
         Do_addProduct \<lparr>id' = 1, name = ''Mouse'', price = 99, stock = 0\<rparr>]
        (add_original 2
           \<lparr>the_product = \<lparr>id' = 1, name = ''Mouse'', price = (15::real), stock = 10\<rparr>,
            the_inventory =
              addProduct \<lparr>id' = 1, name = ''Mouse'', price = 15, stock = 10\<rparr> Inventory_instance,
            the_cart = \<lparr>ShoppingCart.items = []\<rparr>\<rparr>)))
     = \<lparr>id' = 1, name = ''Mouse'', price = 99, stock = 0\<rparr>
   \<and> getItems (the_cart (snd (do_changes
        [Do_Inventory_reduceStock 1 4, Do_setPrice 99, Do_setStock 0,
         Do_addProduct \<lparr>id' = 1, name = ''Mouse'', price = 99, stock = 0\<rparr>]
        (add_original 2
           \<lparr>the_product = \<lparr>id' = 1, name = ''Mouse'', price = (15::real), stock = 10\<rparr>,
            the_inventory =
              addProduct \<lparr>id' = 1, name = ''Mouse'', price = 15, stock = 10\<rparr> Inventory_instance,
            the_cart = \<lparr>ShoppingCart.items = []\<rparr>\<rparr>))))
     = [\<lparr>product = \<lparr>id' = 1, name = ''Mouse'', price = 15, stock = 10\<rparr>, quantity = 2\<rparr>]
   \<and> total_cart (\<lambda>q. real_of_int (sint q))
     (the_cart (snd (do_changes
        [Do_Inventory_reduceStock 1 4, Do_setPrice 99, Do_setStock 0,
         Do_addProduct \<lparr>id' = 1, name = ''Mouse'', price = 99, stock = 0\<rparr>]
        (add_original 2
           \<lparr>the_product = \<lparr>id' = 1, name = ''Mouse'', price = 15, stock = 10\<rparr>,
            the_inventory =
              addProduct \<lparr>id' = 1, name = ''Mouse'', price = 15, stock = 10\<rparr> Inventory_instance,
            the_cart = \<lparr>ShoppingCart.items = []\<rparr>\<rparr>)))) = 30"
proof -
  let ?w = "\<lparr>the_product = \<lparr>id' = 1, name = ''Mouse'', price = (15::real), stock = 10\<rparr>,
            the_inventory =
              addProduct \<lparr>id' = 1, name = ''Mouse'', price = 15, stock = 10\<rparr> Inventory_instance,
            the_cart = \<lparr>ShoppingCart.items = []\<rparr>\<rparr>"
  let ?chs = "[Do_Inventory_reduceStock 1 4, Do_setPrice 99, Do_setStock 0,
         Do_addProduct \<lparr>id' = 1, name = ''Mouse'', price = (99::real), stock = 0\<rparr>]"
  have stored: "Inventory.products (the_inventory ?w) 1
                  = Some \<lparr>id' = 1, name = ''Mouse'', price = 15, stock = 10\<rparr>"
    by (simp add: addProduct_def Inventory_instance_def getId_def)
  have inv_after: "fst (getProduct 1 (the_inventory (snd (do_changes ?chs (snd (add_from_inventory 1 2 ?w))))))
     = Inr \<lparr>id' = 1, name = ''Mouse'', price = 99, stock = 0\<rparr>"
    by (simp add: add_from_inventory_def getProduct_def addProduct_def Inventory_instance_def
          getId_def Inventory_reduceStock_def reduceStock_def setPrice_adv_def setStock_adv_def
          word_sless_alt word_sle_eq)
  have prod_after: "the_product (snd (do_changes ?chs (add_original 2 ?w)))
     = \<lparr>id' = 1, name = ''Mouse'', price = 99, stock = 0\<rparr>"
    by (simp add: add_original_def addProduct_def Inventory_instance_def
          getId_def Inventory_reduceStock_def reduceStock_def setPrice_adv_def setStock_adv_def
          word_sless_alt word_sle_eq)
  note t = total_cart_spec [where cv = "\<lambda>q. real_of_int (sint q)" and w = ?w and chs = ?chs
      and q = 2 and i = 1 and p = "\<lparr>id' = 1, name = ''Mouse'', price = 15, stock = 10\<rparr>"]
  note rest = t [THEN conjunct2, THEN conjunct2, THEN conjunct2, THEN conjunct2]
  note items_kept = rest [THEN conjunct1]
  note total_kept = rest [THEN conjunct2, THEN conjunct2, THEN conjunct1]
  note from_inventory = rest [THEN conjunct2, THEN conjunct2, THEN conjunct2, THEN conjunct1,
      rule_format, OF stored]
  have a: "total_cart (\<lambda>q. real_of_int (sint q))
             (the_cart (snd (do_changes ?chs (snd (add_from_inventory 1 2 ?w))))) = 30"
    by (simp only: from_inventory) (simp add: total_cart_def getPrice_def)
  have b: "getItems (the_cart (snd (do_changes ?chs (add_original 2 ?w))))
     = [\<lparr>product = \<lparr>id' = 1, name = ''Mouse'', price = 15, stock = 10\<rparr>, quantity = 2\<rparr>]"
    by (simp only: items_kept) (simp add: getItems_def)
  have c: "total_cart (\<lambda>q. real_of_int (sint q))
             (the_cart (snd (do_changes ?chs (add_original 2 ?w)))) = 30"
    by (simp only: total_kept) (simp add: total_cart_def getPrice_def)
  from a inv_after prod_after b c show ?thesis
    by (intro conjI)
qed

text \<open>
  C10. \<open>removeFromCart\<close> returns the cart it was given, for every cart and all
  arguments; \<open>total\<close>, \<open>getItems\<close> and \<open>empty\<close> give the same before and after.
\<close>

theorem removeFromCart_noop:
  "removeFromCart productId qty c = c
   \<and> total_cart cv (removeFromCart productId qty c) = total_cart cv c
   \<and> getItems (removeFromCart productId qty c) = getItems c
   \<and> empty_cart (removeFromCart productId qty c) = empty_cart c"
  by (simp add: removeFromCart_def)

theorem removeFromCart_noop_witness:
  "removeFromCart 1 2
     \<lparr>ShoppingCart.items =
        [\<lparr>product = \<lparr>id' = 1, name = ''Mouse'', price = (15::real), stock = 10\<rparr>, quantity = 2\<rparr>]\<rparr>
   = \<lparr>ShoppingCart.items =
        [\<lparr>product = \<lparr>id' = 1, name = ''Mouse'', price = 15, stock = 10\<rparr>, quantity = 2\<rparr>]\<rparr>"
  using removeFromCart_noop [of 1 2
     "\<lparr>ShoppingCart.items =
        [\<lparr>product = \<lparr>id' = 1, name = ''Mouse'', price = (15::real), stock = 10\<rparr>, quantity = 2\<rparr>]\<rparr>"
     "\<lambda>q. real_of_int (sint q)"]
  by simp

lemma call_positive:
  "quantities_positive c \<Longrightarrow> adds_positive x \<Longrightarrow> quantities_positive (call x c)"
  by (cases x)
     (simp_all add: quantities_positive_def addItem_def addToCart_def removeFromCart_def clear_def)

lemma calls_positive:
  "quantities_positive c \<Longrightarrow> list_all adds_positive xs \<Longrightarrow> quantities_positive (fold call xs c)"
  by (induction xs arbitrary: c) (simp_all add: call_positive)

subsection \<open>Inventory\<close>

text \<open>
  C8. For every inventory and id: \<open>getProduct\<close> throws exactly when nothing is stored
  under the id, and what it throws then is the ShopException "Product not found";
  otherwise it returns the stored product; the inventory is the same after the call in
  both cases.
\<close>

theorem getProduct_spec:
  "((\<exists>e. fst (getProduct i iv) = Inl e) \<longleftrightarrow> Inventory.products iv i = None)
   \<and> (Inventory.products iv i = None \<longrightarrow>
        fst (getProduct i iv) = Inl (ShopException ''Product not found''))
   \<and> (\<forall>p. Inventory.products iv i = Some p \<longrightarrow> fst (getProduct i iv) = Inr p)
   \<and> snd (getProduct i iv) = iv"
  by (auto simp: getProduct_def split: option.splits)

theorem getProduct_spec_witness:
  "getProduct 1 (addProduct \<lparr>id' = 1, name = ''Mouse'', price = (15::real), stock = 10\<rparr> Inventory_instance)
     = (Inr \<lparr>id' = 1, name = ''Mouse'', price = 15, stock = 10\<rparr>,
        addProduct \<lparr>id' = 1, name = ''Mouse'', price = 15, stock = 10\<rparr> Inventory_instance)
   \<and> getProduct 7 (addProduct \<lparr>id' = 1, name = ''Mouse'', price = (15::real), stock = 10\<rparr> Inventory_instance)
     = (Inl (ShopException ''Product not found''),
        addProduct \<lparr>id' = 1, name = ''Mouse'', price = 15, stock = 10\<rparr> Inventory_instance)"
  using getProduct_spec [of 1 "addProduct \<lparr>id' = 1, name = ''Mouse'', price = (15::real), stock = 10\<rparr> Inventory_instance"]
    getProduct_spec [of 7 "addProduct \<lparr>id' = 1, name = ''Mouse'', price = (15::real), stock = 10\<rparr> Inventory_instance"]
  by (simp add: prod_eq_iff addProduct_def Inventory_instance_def getId_def)

lemma key_is_id_instance: "key_is_id Inventory_instance"
  by (simp add: key_is_id_def Inventory_instance_def)

lemma key_is_id_addProduct: "key_is_id iv \<Longrightarrow> key_is_id (addProduct p iv)"
  by (simp add: key_is_id_def addProduct_def)

lemma key_is_id_fold: "key_is_id iv \<Longrightarrow> key_is_id (fold addProduct ps iv)"
  by (induction ps arbitrary: iv) (simp_all add: key_is_id_addProduct)

lemma map_filter_dom:
  "set ks \<subseteq> dom m \<Longrightarrow> List.map_filter m ks = map (\<lambda>k. the (m k)) ks"
  by (induction ks) (auto simp: List.map_filter_simps)

lemma stored_products:
  assumes k: "key_is_id iv" and it: "iteration_order iv ks"
  shows "map getId (List.map_filter (Inventory.products iv) ks) = ks"
    and "set (List.map_filter (Inventory.products iv) ks) = ran (Inventory.products iv)"
proof -
  from it have sub: "set ks \<subseteq> dom (Inventory.products iv)" and eq: "set ks = dom (Inventory.products iv)"
    by (simp_all add: iteration_order_def)
  have mf: "List.map_filter (Inventory.products iv) ks = map (\<lambda>k. the (Inventory.products iv k)) ks"
    by (rule map_filter_dom [OF sub])
  have "\<forall>x\<in>set ks. getId (the (Inventory.products iv x)) = x"
    using sub k by (auto simp: key_is_id_def)
  then show "map getId (List.map_filter (Inventory.products iv) ks) = ks"
    by (simp add: mf map_idI)
  show "set (List.map_filter (Inventory.products iv) ks) = ran (Inventory.products iv)"
    unfolding mf using eq by (force simp: ran_def dom_def image_iff)
qed

lemma listAll_facts:
  assumes k: "key_is_id iv" and it: "iteration_order iv ks"
  shows "sorted (map (\<lambda>p. sint (getId p)) (listAll ks iv))"
    and "distinct (map (\<lambda>p. sint (getId p)) (listAll ks iv))"
    and "set (listAll ks iv) = ran (Inventory.products iv)"
    and "length (listAll ks iv) = length ks"
proof -
  let ?xs = "List.map_filter (Inventory.products iv) ks"
  let ?f = "\<lambda>p::'a Product. sint (getId p)"
  show "sorted (map ?f (listAll ks iv))"
    by (simp add: listAll_def)
  have "map ?f ?xs = map sint (map getId ?xs)" by simp
  also have "\<dots> = map sint ks" by (simp only: stored_products(1) [OF k it])
  finally have m: "map ?f ?xs = map sint ks" .
  have "distinct (map sint ks)"
    using it by (auto simp: iteration_order_def distinct_map intro!: inj_onI signed_word_eqI)
  with m have d: "distinct (map ?f ?xs)" by simp
  from d show "distinct (map ?f (listAll ks iv))"
    by (simp add: listAll_def distinct_map)
  show "set (listAll ks iv) = ran (Inventory.products iv)"
    by (simp add: listAll_def stored_products(2) [OF k it])
  have "length ?xs = length (map getId ?xs)" by simp
  also have "\<dots> = length ks" by (simp only: stored_products(1) [OF k it])
  finally show "length (listAll ks iv) = length ks"
    by (simp add: listAll_def)
qed

lemma listAll_unique:
  assumes k: "key_is_id iv" and it: "iteration_order iv ks" and it': "iteration_order iv ks'"
  shows "listAll ks' iv = listAll ks iv"
proof (rule map_sorted_distinct_set_unique [where f = "\<lambda>p. sint (getId p)"])
  have "inj_on (\<lambda>p. sint (getId p)) (set (listAll ks iv))"
    using listAll_facts(2) [OF k it] by (simp add: distinct_map)
  moreover have "set (listAll ks' iv) = set (listAll ks iv)"
    by (simp add: listAll_facts(3) [OF k it] listAll_facts(3) [OF k it'])
  ultimately show "inj_on (\<lambda>p. sint (getId p)) (set (listAll ks' iv) \<union> set (listAll ks iv))"
    by simp
  show "set (listAll ks' iv) = set (listAll ks iv)"
    by (simp add: listAll_facts(3) [OF k it] listAll_facts(3) [OF k it'])
qed (rule listAll_facts [OF k it] listAll_facts [OF k it'])+

text \<open>
  C9. For every inventory built by \<open>addProduct\<close> calls, in any order, and every order
  \<open>ks\<close> in which the container may hand out its entries: \<open>listAll\<close> returns the
  stored products, each once, in strictly ascending order of id, and returns the same
  list for every other such order.
\<close>

theorem listAll_sorted_by_id:
  assumes iv: "iv = fold addProduct ps Inventory_instance"
    and it: "iteration_order iv ks"
  shows "sorted_wrt (\<lambda>a b. getId a <s getId b) (listAll ks iv)
         \<and> set (listAll ks iv) = ran (Inventory.products iv)
         \<and> length (listAll ks iv) = card (dom (Inventory.products iv))
         \<and> (\<forall>ks'. iteration_order iv ks' \<longrightarrow> listAll ks' iv = listAll ks iv)"
proof -
  have k: "key_is_id iv"
    unfolding iv by (rule key_is_id_fold [OF key_is_id_instance])
  have "sorted_wrt (<) (map (\<lambda>p. sint (getId p)) (listAll ks iv))"
    using listAll_facts(1,2) [OF k it] by (simp add: strict_sorted_iff)
  then have s: "sorted_wrt (\<lambda>a b. getId a <s getId b) (listAll ks iv)"
    by (simp add: sorted_wrt_map word_sless_alt)
  from it have dk: "distinct ks" and sk: "set ks = dom (Inventory.products iv)"
    by (simp_all add: iteration_order_def)
  have "card (dom (Inventory.products iv)) = card (set ks)"
    by (simp only: sk)
  also have "\<dots> = length ks"
    by (rule distinct_card [OF dk])
  finally have l: "length (listAll ks iv) = card (dom (Inventory.products iv))"
    using listAll_facts(4) [OF k it] by simp
  from s l listAll_facts(3) [OF k it] listAll_unique [OF k it] show ?thesis
    by blast
qed



theorem listAll_sorted_by_id_witness:
  "iteration_order
     (fold addProduct
        [\<lparr>id' = 2, name = ''Keyboard'', price = (25::real), stock = 5\<rparr>,
         \<lparr>id' = 1, name = ''Mouse'', price = 15, stock = 10\<rparr>] Inventory_instance) [2, 1]
   \<and> listAll [2, 1]
       (fold addProduct
          [\<lparr>id' = 2, name = ''Keyboard'', price = (25::real), stock = 5\<rparr>,
           \<lparr>id' = 1, name = ''Mouse'', price = 15, stock = 10\<rparr>] Inventory_instance)
     = [\<lparr>id' = 1, name = ''Mouse'', price = 15, stock = 10\<rparr>,
        \<lparr>id' = 2, name = ''Keyboard'', price = 25, stock = 5\<rparr>]
   \<and> listAll [1, 2]
       (fold addProduct
          [\<lparr>id' = 2, name = ''Keyboard'', price = (25::real), stock = 5\<rparr>,
           \<lparr>id' = 1, name = ''Mouse'', price = 15, stock = 10\<rparr>] Inventory_instance)
     = [\<lparr>id' = 1, name = ''Mouse'', price = 15, stock = 10\<rparr>,
        \<lparr>id' = 2, name = ''Keyboard'', price = 25, stock = 5\<rparr>]"
proof -
  let ?iv = "fold addProduct
        [\<lparr>id' = 2, name = ''Keyboard'', price = (25::real), stock = 5\<rparr>,
         \<lparr>id' = 1, name = ''Mouse'', price = 15, stock = 10\<rparr>] Inventory_instance"
  have it: "iteration_order ?iv [2, 1]"
    by (auto simp: iteration_order_def addProduct_def Inventory_instance_def getId_def)
  have it': "iteration_order ?iv [1, 2]"
    by (auto simp: iteration_order_def addProduct_def Inventory_instance_def getId_def)
  have v: "listAll [2, 1] ?iv
     = [\<lparr>id' = 1, name = ''Mouse'', price = 15, stock = 10\<rparr>,
        \<lparr>id' = 2, name = ''Keyboard'', price = 25, stock = 5\<rparr>]"
    by (simp add: listAll_def addProduct_def Inventory_instance_def getId_def
          List.map_filter_simps)
  from listAll_sorted_by_id [OF refl it] it'
  have u: "listAll [1, 2] ?iv = listAll [2, 1] ?iv" by blast
  show ?thesis
  proof (intro conjI)
    show "iteration_order ?iv [2, 1]" by (rule it)
    show "listAll [2, 1] ?iv
     = [\<lparr>id' = 1, name = ''Mouse'', price = 15, stock = 10\<rparr>,
        \<lparr>id' = 2, name = ''Keyboard'', price = 25, stock = 5\<rparr>]" by (rule v)
    then show "listAll [1, 2] ?iv
     = [\<lparr>id' = 1, name = ''Mouse'', price = 15, stock = 10\<rparr>,
        \<lparr>id' = 2, name = ''Keyboard'', price = 25, stock = 5\<rparr>]" by (simp only: u)
  qed
qed

subsection \<open>The menu program\<close>

lemma reduceStock_False: "reduceStock q p = (False, p') \<Longrightarrow> p' = p"
  by (auto simp: reduceStock_def split: if_splits)

lemma reduceStock_True:
  assumes "reduceStock q p = (True, p')"
  shows "0 <s q" and "max 0 (sint (stock p')) + 1 \<le> max 0 (sint (stock p))"
proof -
  from assms have g: "\<not> q \<le>s 0" "\<not> stock p <s q" and p': "p' = p\<lparr>stock := stock p - q\<rparr>"
    by (auto simp: reduceStock_def split: if_splits)
  from g show q: "0 <s q" by (auto simp: word_sless_alt word_sle_eq)
  from g have le: "q \<le>s stock p" by (auto simp: word_sless_alt word_sle_eq)
  have "sint (stock p - q) = sint (stock p) - sint q"
    by (rule sint_stock_minus [OF q le])
  moreover have "0 < sint q" using q by (simp add: word_sless_alt)
  moreover have "sint q \<le> sint (stock p)" using le by (simp add: word_sle_eq)
  ultimately show "max 0 (sint (stock p')) + 1 \<le> max 0 (sint (stock p))"
    by (simp add: p')
qed

lemma cart_mark_addItem: "cart_mark (addItem p q c) = 1"
  by (simp add: cart_mark_def addItem_def)

lemma cart_mark_range: "0 \<le> cart_mark c" "cart_mark c \<le> 1"
  by (simp_all add: cart_mark_def)

lemma add_loop_bound:
  "add_loop i q ps c = (ps', c') \<Longrightarrow>
     stock_left ps' + cart_mark c' \<le> stock_left ps + cart_mark c"
proof (induction ps arbitrary: c ps' c')
  case Nil
  then show ?case by simp
next
  case (Cons p ps)
  obtain ok p1 where r: "(if getId p = i then reduceStock q p else (False, p)) = (ok, p1)"
    by (cases "if getId p = i then reduceStock q p else (False, p)") auto
  obtain ps1 c1 where l: "add_loop i q ps (if ok then addItem p1 q c else c) = (ps1, c1)"
    by (cases "add_loop i q ps (if ok then addItem p1 q c else c)") auto
  from Cons.prems r l have res: "ps' = p1 # ps1" "c' = c1"
    by (simp_all del: add_loop.simps(1))
  have ih: "stock_left ps1 + cart_mark c1
              \<le> stock_left ps + cart_mark (if ok then addItem p1 q c else c)"
    by (rule Cons.IH [OF l])
  show ?case
  proof (cases ok)
    case True
    with r have "reduceStock q p = (True, p1)" by (auto split: if_splits)
    then have "max 0 (sint (stock p1)) + 1 \<le> max 0 (sint (stock p))"
      by (rule reduceStock_True)
    with ih True cart_mark_range [of c] show ?thesis
      by (simp add: res stock_left_def cart_mark_addItem)
  next
    case False
    with r have "p1 = p" by (auto split: if_splits dest: reduceStock_False)
    with ih False show ?thesis by (simp add: res stock_left_def)
  qed
qed

lemma add_loop_positive:
  "add_loop i q ps c = (ps', c') \<Longrightarrow> quantities_positive c \<Longrightarrow> quantities_positive c'"
proof (induction ps arbitrary: c ps' c')
  case Nil
  then show ?case by simp
next
  case (Cons p ps)
  obtain ok p1 where r: "(if getId p = i then reduceStock q p else (False, p)) = (ok, p1)"
    by (cases "if getId p = i then reduceStock q p else (False, p)") auto
  obtain ps1 c1 where l: "add_loop i q ps (if ok then addItem p1 q c else c) = (ps1, c1)"
    by (cases "add_loop i q ps (if ok then addItem p1 q c else c)") auto
  from Cons.prems(1) r l have res: "c' = c1"
    by (simp del: add_loop.simps(1))
  have "quantities_positive (if ok then addItem p1 q c else c)"
  proof (cases ok)
    case True
    with r have "reduceStock q p = (True, p1)" by (auto split: if_splits)
    then have "0 <s q" by (rule reduceStock_True)
    with True Cons.prems(2) show ?thesis
      by (simp add: quantities_positive_def addItem_def)
  next
    case False
    with Cons.prems(2) show ?thesis by simp
  qed
  with Cons.IH [OF l] res show ?case by simp
qed

lemma checkout_with_step:
  assumes b: "b \<le> 2 ^ 31 - 1" and inv: "in_budget b st"
    and co: "checkout_with cv payment st = (out, st')"
  shows "in_budget b st'"
    and "out = None \<longrightarrow> orderCounter st' = orderCounter st"
    and "\<forall>ord. out = Some ord \<longrightarrow>
           sint (orderId ord) = sint (orderCounter st) + 1
           \<and> sint (orderCounter st') = sint (orderCounter st) + 1"
    and "main_state.products st' = main_state.products st"
proof -
  show "main_state.products st' = main_state.products st"
    using co by (auto simp: checkout_with_def new_Order_def split: if_splits)
  show "out = None \<longrightarrow> orderCounter st' = orderCounter st"
    using co by (auto simp: checkout_with_def new_Order_def split: if_splits)
  have made: "sint (orderCounter st + 1) = sint (orderCounter st) + 1
                \<and> in_budget b (st\<lparr>cart := clear (cart st), orderCounter := orderCounter st + 1\<rparr>)"
    if ne: "\<not> empty_cart (cart st)"
  proof -
    from ne have m: "cart_mark (cart st) = 1"
      by (simp add: empty_cart_def cart_mark_def)
    have sl: "0 \<le> stock_left (main_state.products st)"
      unfolding stock_left_def by (rule sum_list_nonneg) auto
    from inv m sl b have up: "0 \<le> sint (orderCounter st)" "sint (orderCounter st) + 1 \<le> 2 ^ 31 - 1"
      by (simp_all add: in_budget_def)
    then have s: "sint (orderCounter st + 1) = sint (orderCounter st) + 1"
      by (rule sint_counter_Suc)
    with inv m up show ?thesis
      by (simp add: in_budget_def cart_mark_def clear_def)
  qed
  show "in_budget b st'"
    using co inv made by (auto simp: checkout_with_def new_Order_def split: if_splits)
  show "\<forall>ord. out = Some ord \<longrightarrow>
           sint (orderId ord) = sint (orderCounter st) + 1
           \<and> sint (orderCounter st') = sint (orderCounter st) + 1"
    using co made by (auto simp: checkout_with_def new_Order_def split: if_splits)
qed

lemma loop_body_step:
  assumes b: "b \<le> 2 ^ 31 - 1" and inv: "in_budget b st"
    and lb: "loop_body cv c st = (out, st')"
  shows "in_budget b st'"
    and "out = None \<longrightarrow> orderCounter st' = orderCounter st"
    and "\<forall>ord. out = Some ord \<longrightarrow>
           sint (orderId ord) = sint (orderCounter st) + 1
           \<and> sint (orderCounter st') = sint (orderCounter st) + 1"
proof -
  have "in_budget b st'
    \<and> (out = None \<longrightarrow> orderCounter st' = orderCounter st)
    \<and> (\<forall>ord. out = Some ord \<longrightarrow>
           sint (orderId ord) = sint (orderCounter st) + 1
           \<and> sint (orderCounter st') = sint (orderCounter st) + 1)"
  proof (cases c)
    case (AddToCart i q)
    obtain ps c1 where l: "add_loop i q (main_state.products st) (cart st) = (ps, c1)"
      by (cases "add_loop i q (main_state.products st) (cart st)") auto
    with lb AddToCart have r: "out = None" "st' = st\<lparr>main_state.products := ps, cart := c1\<rparr>"
      by simp_all
    from add_loop_bound [OF l] inv show ?thesis
      by (simp add: r in_budget_def)
  next
    case (Checkout pm)
    with lb have "checkout_with cv (pay (if pm = 1 then CardPayment else PayPalPayment)) st = (out, st')"
      by (simp add: checkout_def)
    from checkout_with_step [OF b inv this] show ?thesis by blast
  qed (use lb inv in auto)
  then show "in_budget b st'"
    and "out = None \<longrightarrow> orderCounter st' = orderCounter st"
    and "\<forall>ord. out = Some ord \<longrightarrow>
           sint (orderId ord) = sint (orderCounter st) + 1
           \<and> sint (orderCounter st') = sint (orderCounter st) + 1"
    by blast+
qed

lemma main_loop_ids:
  assumes b: "b \<le> 2 ^ 31 - 1"
  shows "in_budget b st \<Longrightarrow> main_loop cv cmds st = (os, st') \<Longrightarrow>
     map (\<lambda>ord. sint (orderId ord)) os
       = [sint (orderCounter st) + 1 .. sint (orderCounter st) + int (length os)]
     \<and> sint (orderCounter st') = sint (orderCounter st) + int (length os)"
proof (induction cmds arbitrary: st os st')
  case Nil
  then show ?case by simp
next
  case (Cons c cs)
  show ?case
  proof (cases "c = Exit")
    case True
    with Cons.prems show ?thesis by simp
  next
    case False
    obtain out st1 where lb: "loop_body cv c st = (out, st1)"
      by (cases "loop_body cv c st") auto
    obtain os1 st2 where ml: "main_loop cv cs st1 = (os1, st2)"
      by (cases "main_loop cv cs st1") auto
    from Cons.prems(2) False lb ml
    have res: "os = (case out of None \<Rightarrow> [] | Some ord \<Rightarrow> [ord]) @ os1" "st' = st2"
      by simp_all
    note step = loop_body_step [OF b Cons.prems(1) lb]
    from Cons.IH [OF step(1) ml]
    have ih: "map (\<lambda>ord. sint (orderId ord)) os1
                = [sint (orderCounter st1) + 1 .. sint (orderCounter st1) + int (length os1)]"
      "sint (orderCounter st2) = sint (orderCounter st1) + int (length os1)"
      by simp_all
    show ?thesis
    proof (cases out)
      case None
      with step(2) have "orderCounter st1 = orderCounter st" by simp
      with ih None show ?thesis by (simp add: res)
    next
      case (Some ord)
      with step(3) have o: "sint (orderId ord) = sint (orderCounter st) + 1"
        "sint (orderCounter st1) = sint (orderCounter st) + 1" by simp_all
      have "[sint (orderCounter st) + 1 .. sint (orderCounter st) + int (length (ord # os1))]
              = (sint (orderCounter st) + 1)
                # [sint (orderCounter st) + 1 + 1 .. sint (orderCounter st) + int (length (ord # os1))]"
        by (rule upto_rec1) simp
      with ih o Some show ?thesis by (simp add: res add.commute add.left_commute)
    qed
  qed
qed

lemma initial_in_budget: "in_budget 35 (initial_state lit)"
  by (simp add: in_budget_def initial_state_def cart_mark_def stock_left_def)

lemma main_adv_value:
  "main_adv cv lit =
     Inr (Some \<lparr>orderId = 1,
                Order.items = [\<lparr>product = \<lparr>id' = 1, name = ''Mouse'', price = lit 15, stock = 10\<rparr>,
                                quantity = 2\<rparr>],
                amount = 0 + lit 15 * cv 2\<rparr>,
          addProduct \<lparr>id' = 2, name = ''Keyboard'', price = lit 25, stock = 5\<rparr>
            (addProduct \<lparr>id' = 1, name = ''Mouse'', price = lit 15, stock = 10\<rparr> Inventory_instance),
          \<lparr>ShoppingCart.items = [\<lparr>product = \<lparr>id' = 1, name = ''Mouse'', price = lit 15, stock = 10\<rparr>,
                                   quantity = 2\<rparr>]\<rparr>,
          1)"
  by (simp add: main_adv_def getProduct_def addProduct_def Inventory_instance_def getId_def
        addToCart_def new_Order_def getItems_def subtotal_def getPrice_def)

lemma loop_body_positive:
  assumes "quantities_positive (cart st)"
  shows "quantities_positive (cart (snd (loop_body cv c st)))"
proof (cases c)
  case (AddToCart i q)
  obtain ps c1 where l: "add_loop i q (main_state.products st) (cart st) = (ps, c1)"
    by (cases "add_loop i q (main_state.products st) (cart st)") auto
  from add_loop_positive [OF l assms] show ?thesis
    by (simp add: AddToCart l)
next
  case (Checkout pm)
  with assms show ?thesis
    by (simp add: checkout_def checkout_with_def new_Order_def clear_def quantities_positive_def)
qed (use assms in simp_all)

lemma main_loop_positive:
  "quantities_positive (cart st) \<Longrightarrow> quantities_positive (cart (snd (main_loop cv cmds st)))"
proof (induction cmds arbitrary: st)
  case Nil
  then show ?case by simp
next
  case (Cons c cs)
  show ?case
  proof (cases "c = Exit")
    case True
    with Cons.prems show ?thesis by simp
  next
    case False
    have "quantities_positive (cart (snd (loop_body cv c st)))"
      by (rule loop_body_positive [OF Cons.prems])
    from Cons.IH [OF this] False show ?thesis
      by (simp add: split_beta)
  qed
qed

text \<open>
  C2. The checkout branch, for any payment object: on an empty cart it makes no Order and
  the state is as before (also with the payment the menu chooses for any \<open>pm\<close>); when
  \<open>pay\<close> of the cart's total returns \<open>false\<close> it makes no Order and the state is as
  before, so the items stay in the cart and no stock comes back; when the cart has an
  item and \<open>pay\<close> returns \<open>true\<close> it makes the Order of the cart's items, clears
  the cart and steps the counter. An Order is made only in that last case, the cart
  changes only in that case, and the products are never touched.
\<close>

theorem checkout_guarded:
  "(empty_cart (cart st) \<longrightarrow>
      checkout_with cv payment st = (None, st) \<and> checkout cv pm st = (None, st))
   \<and> (\<not> payment (total_cart cv (cart st)) \<longrightarrow> checkout_with cv payment st = (None, st))
   \<and> (\<not> empty_cart (cart st) \<and> payment (total_cart cv (cart st)) \<longrightarrow>
        checkout_with cv payment st
          = (Some (fst (new_Order cv (getItems (cart st)) (orderCounter st))),
             st\<lparr>cart := clear (cart st), orderCounter := orderCounter st + 1\<rparr>))
   \<and> ((\<exists>ord. fst (checkout_with cv payment st) = Some ord) \<longleftrightarrow>
        \<not> empty_cart (cart st) \<and> payment (total_cart cv (cart st)))
   \<and> (cart (snd (checkout_with cv payment st)) \<noteq> cart st \<longrightarrow>
        \<not> empty_cart (cart st) \<and> payment (total_cart cv (cart st)))
   \<and> main_state.products (snd (checkout_with cv payment st)) = main_state.products st"
  by (auto simp: checkout_def checkout_with_def new_Order_def)

theorem checkout_guarded_witness:
  "checkout_with (\<lambda>q. real_of_int (sint q)) (pay_adv (CreditCardPayment [] ''Alice''))
     \<lparr>main_state.products = [\<lparr>id' = 1, name = ''Book'', price = 21 / 2, stock = 7\<rparr>],
      cart = \<lparr>ShoppingCart.items =
               [\<lparr>product = \<lparr>id' = 1, name = ''Book'', price = 21 / 2, stock = 7\<rparr>, quantity = 3\<rparr>]\<rparr>,
      orderCounter = 0\<rparr>
   = (None,
      \<lparr>main_state.products = [\<lparr>id' = 1, name = ''Book'', price = 21 / 2, stock = 7\<rparr>],
       cart = \<lparr>ShoppingCart.items =
                [\<lparr>product = \<lparr>id' = 1, name = ''Book'', price = 21 / 2, stock = 7\<rparr>, quantity = 3\<rparr>]\<rparr>,
       orderCounter = 0\<rparr>)
   \<and> checkout_with (\<lambda>q. real_of_int (sint q)) (pay CardPayment)
     \<lparr>main_state.products = [\<lparr>id' = 1, name = ''Book'', price = 21 / 2, stock = 7\<rparr>],
      cart = \<lparr>ShoppingCart.items =
               [\<lparr>product = \<lparr>id' = 1, name = ''Book'', price = 21 / 2, stock = 7\<rparr>, quantity = 3\<rparr>]\<rparr>,
      orderCounter = 0\<rparr>
   = (Some \<lparr>orderId = 1,
            Order.items =
              [\<lparr>product = \<lparr>id' = 1, name = ''Book'', price = 21 / 2, stock = 7\<rparr>, quantity = 3\<rparr>],
            amount = 63 / 2\<rparr>,
      \<lparr>main_state.products = [\<lparr>id' = 1, name = ''Book'', price = 21 / 2, stock = 7\<rparr>],
       cart = \<lparr>ShoppingCart.items = []\<rparr>,
       orderCounter = 1\<rparr>)
   \<and> checkout (\<lambda>q. real_of_int (sint q)) 1
     \<lparr>main_state.products = [\<lparr>id' = 1, name = ''Book'', price = 21 / 2, stock = 10\<rparr>],
      cart = \<lparr>ShoppingCart.items = []\<rparr>,
      orderCounter = 0\<rparr>
   = (None,
      \<lparr>main_state.products = [\<lparr>id' = 1, name = ''Book'', price = 21 / 2, stock = 10\<rparr>],
       cart = \<lparr>ShoppingCart.items = []\<rparr>,
       orderCounter = 0\<rparr>)"
  using checkout_guarded
    [of "\<lparr>main_state.products = [\<lparr>id' = 1, name = ''Book'', price = 21 / 2, stock = 7\<rparr>],
      cart = \<lparr>ShoppingCart.items =
               [\<lparr>product = \<lparr>id' = 1, name = ''Book'', price = 21 / 2, stock = 7\<rparr>, quantity = 3\<rparr>]\<rparr>,
      orderCounter = 0\<rparr>"
        "\<lambda>q. real_of_int (sint q)" "pay_adv (CreditCardPayment [] ''Alice'')" 1]
    checkout_guarded
    [of "\<lparr>main_state.products = [\<lparr>id' = 1, name = ''Book'', price = 21 / 2, stock = 7\<rparr>],
      cart = \<lparr>ShoppingCart.items =
               [\<lparr>product = \<lparr>id' = 1, name = ''Book'', price = 21 / 2, stock = 7\<rparr>, quantity = 3\<rparr>]\<rparr>,
      orderCounter = 0\<rparr>"
        "\<lambda>q. real_of_int (sint q)" "pay CardPayment" 1]
    checkout_guarded
    [of "\<lparr>main_state.products = [\<lparr>id' = 1, name = ''Book'', price = 21 / 2, stock = 10\<rparr>],
      cart = \<lparr>ShoppingCart.items = []\<rparr>,
      orderCounter = 0\<rparr>"
        "\<lambda>q. real_of_int (sint q)" "pay CardPayment" 1]
  by (simp add: empty_cart_def total_cart_def subtotal_def getPrice_def new_Order_def
        getItems_def clear_def)

text \<open>
  C3. In the menu program, for every sequence of commands: the ids of the Orders made,
  in the order they are made, are 1, 2, 3 and so on, one per successful checkout, so each
  is greater than all before it, whatever checkouts failed in between. (The counter is
  an \<^verbatim>\<open>int\<close>; it cannot run over, since each Order uses up at least one of the 35
  units in stock.) The second program makes one Order, and its id is 1.
\<close>

theorem order_ids_increasing:
  "map (\<lambda>ord. sint (orderId ord)) (fst (main cv lit cmds))
     = [1 .. int (length (fst (main cv lit cmds)))]
   \<and> sorted_wrt (\<lambda>a b. orderId a <s orderId b) (fst (main cv lit cmds))
   \<and> (\<exists>ord iv c. main_adv cv lit = Inr (Some ord, iv, c, 1) \<and> orderId ord = 1)"
proof -
  obtain os st where m: "main_loop cv cmds (initial_state lit) = (os, st)"
    by (cases "main_loop cv cmds (initial_state lit)") auto
  have b: "(35::int) \<le> 2 ^ 31 - 1" by simp
  from main_loop_ids [OF b initial_in_budget m]
  have ids: "map (\<lambda>ord. sint (orderId ord)) os = [1 .. int (length os)]"
    by (simp add: initial_state_def)
  have "sorted_wrt (<) [1 .. int (length os)]"
    by (simp add: strict_sorted_iff)
  with ids have "sorted_wrt (<) (map (\<lambda>ord. sint (orderId ord)) os)" by simp
  then have "sorted_wrt (\<lambda>a b. orderId a <s orderId b) os"
    by (simp add: sorted_wrt_map word_sless_alt)
  with ids m show ?thesis
    by (simp add: main_def main_adv_value)
qed

theorem order_ids_increasing_witness:
  "map (\<lambda>ord. sint (orderId ord))
     (fst (main (\<lambda>q. real_of_int (sint q)) (\<lambda>x. x)
            [Checkout 1, AddToCart 1 3, Checkout 1, Checkout 2, AddToCart 2 1, Checkout 2]))
   = [1, 2]
   \<and> map amount
     (fst (main (\<lambda>q. real_of_int (sint q)) (\<lambda>x. x)
            [Checkout 1, AddToCart 1 3, Checkout 1, Checkout 2, AddToCart 2 1, Checkout 2]))
   = [63 / 2, 5 / 2]"
proof -
  have l: "length (fst (main (\<lambda>q. real_of_int (sint q)) (\<lambda>x. x)
            [Checkout 1, AddToCart 1 3, Checkout 1, Checkout 2, AddToCart 2 1, Checkout 2])) = 2"
    and a: "map amount (fst (main (\<lambda>q. real_of_int (sint q)) (\<lambda>x. x)
            [Checkout 1, AddToCart 1 3, Checkout 1, Checkout 2, AddToCart 2 1, Checkout 2]))
            = [63 / 2, 5 / 2]"
    by (simp_all add: main_def initial_state_def checkout_def checkout_with_def empty_cart_def
          getId_def reduceStock_def addItem_def word_sless_alt word_sle_eq new_Order_def
          getItems_def clear_def total_cart_def subtotal_def getPrice_def)
  have "[1 .. int 2] = [1, 2]" by (simp add: upto.simps)
  with order_ids_increasing [of "\<lambda>q. real_of_int (sint q)" "\<lambda>x. x"
      "[Checkout 1, AddToCart 1 3, Checkout 1, Checkout 2, AddToCart 2 1, Checkout 2]"] l a
  show ?thesis by (simp only:)
qed

text \<open>
  C6, as amended. \<open>addToCart\<close> and \<open>addItem\<close> store the quantity they are given and
  check nothing: if every item of a cart has a quantity above zero, the same holds after
  every sequence of calls of the cart's methods in which each call that adds is given a
  quantity above zero. In the menu program this is so for every input, because
  \<open>addItem\<close> is reached only after \<open>reduceStock\<close> has succeeded with that quantity.
\<close>

theorem cart_quantities_positive:
  "(quantities_positive c \<and> list_all adds_positive xs \<longrightarrow> quantities_positive (fold call xs c))
   \<and> quantities_positive (cart (snd (main cv lit cmds)))"
proof -
  have "quantities_positive (cart (initial_state lit))"
    by (simp add: initial_state_def quantities_positive_def)
  then have "quantities_positive (cart (snd (main cv lit cmds)))"
    unfolding main_def by (rule main_loop_positive)
  then show ?thesis by (simp add: calls_positive)
qed

text \<open>
  As stated for every sequence of calls, C6 fails: a call that adds with quantity 0 or
  below leaves such an item in the cart.
\<close>

theorem cart_quantity_counterexample:
  "\<not> quantities_positive
       (addToCart \<lparr>id' = 1, name = ''Mouse'', price = (15::real), stock = 10\<rparr> 0
          \<lparr>ShoppingCart.items = []\<rparr>)
   \<and> \<not> quantities_positive
       (addItem \<lparr>id' = 1, name = ''Book'', price = (21/2::real), stock = 10\<rparr> (-2)
          \<lparr>ShoppingCart.items = []\<rparr>)"
  by (simp add: quantities_positive_def addToCart_def addItem_def word_sless_alt)

theorem cart_quantities_positive_witness:
  "quantities_positive
     (fold call
        [Call_addToCart \<lparr>id' = 1, name = ''Mouse'', price = (15::real), stock = 10\<rparr> 2,
         Call_removeFromCart 1 1,
         Call_addItem \<lparr>id' = 2, name = ''Keyboard'', price = 25, stock = 5\<rparr> 1]
        \<lparr>ShoppingCart.items = []\<rparr>)
   \<and> quantities_positive
       (cart (snd (main (\<lambda>q. real_of_int (sint q)) (\<lambda>x. x)
                     [AddToCart 1 3, AddToCart 2 0, AddToCart 3 (-1), AddToCart 3 6])))"
  using cart_quantities_positive
    [of "\<lparr>ShoppingCart.items = []\<rparr>"
        "[Call_addToCart \<lparr>id' = 1, name = ''Mouse'', price = (15::real), stock = 10\<rparr> 2,
         Call_removeFromCart 1 1,
         Call_addItem \<lparr>id' = 2, name = ''Keyboard'', price = 25, stock = 5\<rparr> 1]"
        "\<lambda>q. real_of_int (sint q)" "\<lambda>x. x"
        "[AddToCart 1 3, AddToCart 2 0, AddToCart 3 (-1), AddToCart 3 6]"]
  by (simp add: quantities_positive_def word_sless_alt)

end
